theory Spec2Isabelle
  imports Complex_Main
begin

section \<open>The inverse-kinematics plugin \<open>GDIKPlugin\<close>\<close>

text \<open>
  The embedded source is \<^verbatim>\<open>src/gd_ik_plugin.cpp\<close>: the class \<^verbatim>\<open>GDIKPlugin\<close>, which adapts
  the solver library \<^verbatim>\<open>gd_ik\<close> to the \<^verbatim>\<open>kinematics::KinematicsBase\<close> interface. Doubles are
  modelled as \<^typ>\<open>real\<close> (the code only compares and stores them), \<^verbatim>\<open>size_t\<close> indexes as
  \<^typ>\<open>nat\<close>, nullable pointers and empty \<^verbatim>\<open>std::function\<close> objects as \<^typ>\<open>'a option\<close>, output
  reference parameters as components of the returned tuple.
\<close>

subsection \<open>Types of the host framework, as far as the plugin reads them\<close>

datatype JointType = UNKNOWN | REVOLUTE | PRISMATIC | PLANAR | FLOATING | FIXED

record JointModel =
  getName :: string
  getType :: JointType

record JointModelGroup =
  getJointModels :: "JointModel list"
  getEndEffectorTips :: "string list"

record RobotModel =
  joint_model_groups :: "(string \<times> JointModelGroup) list"

text \<open>\<^verbatim>\<open>RobotModel::getJointModelGroup\<close> returns a null pointer for an unknown group name.\<close>

definition getJointModelGroup :: "RobotModel \<Rightarrow> string \<Rightarrow> JointModelGroup option" where
  "getJointModelGroup robot_model group_name = map_of (joint_model_groups robot_model) group_name"

record Pose =
  position :: "real \<times> real \<times> real"
  orientation :: "real \<times> real \<times> real \<times> real"

record MoveItErrorCodes =
  val :: int

record KinematicsQueryOptions =
  lock_redundant_joints :: bool
  return_approximate_solution :: bool

text \<open>
  The generated parameter structure \<^verbatim>\<open>Params\<close> (\<^verbatim>\<open>gd_ik_parameters.hpp\<close>), with the fields
  the plugin reads. A node is modelled by the parameters it serves under each prefix, which
  is all the \<^verbatim>\<open>ParamListener\<close> takes from it.
\<close>

record Params =
  position_threshold :: real
  rotation_threshold :: real
  twist_threshold :: real
  cost_threshold :: real
  center_joints_weight :: real
  avoid_joint_limits_weight :: real
  minimal_displacement_weight :: real

type_synonym Node = "string \<Rightarrow> Params"

record ParamListener =
  listener_node :: Node
  listener_prefix :: string

definition get_params :: "ParamListener \<Rightarrow> Params" where
  "get_params listener = listener_node listener (listener_prefix listener)"

type_synonym 'st IKCostFn = "Pose \<Rightarrow> 'st \<Rightarrow> JointModelGroup option \<Rightarrow> real list \<Rightarrow> real"

type_synonym IKCallbackFn = "Pose \<Rightarrow> real list \<Rightarrow> MoveItErrorCodes \<Rightarrow> MoveItErrorCodes"

subsection \<open>Cost functions, goals and frame tests of the solver library\<close>

text \<open>
  The factories \<^verbatim>\<open>make_center_joints_cost_fn\<close>, \<^verbatim>\<open>make_avoid_joint_limits_cost_fn\<close>,
  \<^verbatim>\<open>make_minimal_displacement_cost_fn\<close> and \<^verbatim>\<open>make_ik_cost_fn\<close> return closures. A closure
  is the factory that built it together with the arguments it captured, so each factory is
  a constructor. What a closure computes when called is given by the library, see
  \<open>CostFn_call\<close> below.
\<close>

datatype ('robot, 'st) CostFn =
    is_center_joints_cost_fn: make_center_joints_cost_fn 'robot "nat list" "real list"
  | is_avoid_joint_limits_cost_fn: make_avoid_joint_limits_cost_fn 'robot "nat list" "real list"
  | is_minimal_displacement_cost_fn: make_minimal_displacement_cost_fn "real list" "real list"
  | is_ik_cost_fn: make_ik_cost_fn Pose "'st IKCostFn" "RobotModel option" "JointModelGroup option"
      "real list"

record ('robot, 'st) Goal =
  eval :: "('robot, 'st) CostFn"
  weight :: real

type_synonym FrameTestFn = "real list \<Rightarrow> bool"

text \<open>
  The functions of the solver library (\<^verbatim>\<open>gd_ik/robot.hpp\<close>, \<^verbatim>\<open>gd_ik/frame.hpp\<close>,
  \<^verbatim>\<open>gd_ik/goal.hpp\<close>) and of the robot state that the plugin calls and whose bodies are not
  part of the plugin: they are parameters of the model. The pointers \<^verbatim>\<open>robot_model_\<close> and
  \<^verbatim>\<open>jmg_\<close> are passed as they are. \<open>setToDefaultValues\<close> stands for constructing a
  \<^verbatim>\<open>RobotState\<close> of a model and setting it to its default values.
\<close>

record ('robot, 'st, 'frame) Library =
  Robot_from :: "RobotModel option \<Rightarrow> 'robot"
  get_link_indexes :: "RobotModel option \<Rightarrow> string list \<Rightarrow> nat list"
  get_active_variable_indexes ::
    "RobotModel option \<Rightarrow> JointModelGroup option \<Rightarrow> nat list \<Rightarrow> nat list"
  get_minimal_displacement_factors :: "nat list \<Rightarrow> 'robot \<Rightarrow> real list"
  setToDefaultValues :: "RobotModel \<Rightarrow> 'st"
  get_variables :: "'st \<Rightarrow> real list"
  transform_poses_to_frames :: "'st \<Rightarrow> Pose list \<Rightarrow> string \<Rightarrow> 'frame list"
  make_frame_tests :: "'frame list \<Rightarrow> real \<Rightarrow> real \<Rightarrow> real \<Rightarrow> FrameTestFn list"
  CostFn_call :: "('robot, 'st) CostFn \<Rightarrow> real list \<Rightarrow> real"

text \<open>
  Modelled from the spec: \<^verbatim>\<open>select\<close> (declared in the solver library, body not in the plugin).
  It derives the active vector from a full vector via the active-variable index mapping;
  the indexes must all be in range, otherwise the call ends in a fatal error (\<open>None\<close>).
\<close>

definition select :: "real list \<Rightarrow> nat list \<Rightarrow> real list option" where
  "select values indexes =
     (if list_all (\<lambda>index. index < length values) indexes
      then Some (map (\<lambda>index. values ! index) indexes)
      else None)"

text \<open>
  Modelled from the spec: \<^verbatim>\<open>make_is_solution_test_fn\<close> (declared in the solver library, body
  not in the plugin). Section 4.4: a candidate is accepted when all frame tests pass and the
  weighted sum of the goal costs is at most the cost threshold. The model is the three
  definitions that follow: the frame tests are run in order, the sum is accumulated goal by
  goal, and the test is their conjunction.
\<close>

fun all_frame_tests_pass :: "FrameTestFn list \<Rightarrow> real list \<Rightarrow> bool" where
  "all_frame_tests_pass [] candidate = True"
| "all_frame_tests_pass (frame_test # frame_tests) candidate =
     (if frame_test candidate then all_frame_tests_pass frame_tests candidate else False)"

definition weighted_cost ::
  "(('robot, 'st) CostFn \<Rightarrow> real list \<Rightarrow> real) \<Rightarrow> ('robot, 'st) Goal list \<Rightarrow> real list \<Rightarrow> real" where
  "weighted_cost call goals candidate =
     fold (\<lambda>goal sum. sum + weight goal * call (eval goal) candidate) goals 0"

definition make_is_solution_test_fn ::
  "(('robot, 'st) CostFn \<Rightarrow> real list \<Rightarrow> real) \<Rightarrow> FrameTestFn list \<Rightarrow> ('robot, 'st) Goal list
     \<Rightarrow> real \<Rightarrow> real list \<Rightarrow> bool" where
  "make_is_solution_test_fn call frame_tests goals threshold candidate =
     (all_frame_tests_pass frame_tests candidate \<and> weighted_cost call goals candidate \<le> threshold)"

subsection \<open>The plugin object\<close>

text \<open>
  The members of \<^verbatim>\<open>GDIKPlugin\<close>, followed by the members of its base class that the comment
  in \<^verbatim>\<open>initialize\<close> lists as set by \<^verbatim>\<open>storeValues\<close>. An Isabelle name cannot end with an
  underscore: the member \<^verbatim>\<open>params_\<close> of the source is the field \<open>m_params\<close>, and so on.
\<close>

record 'robot GDIKPlugin =
  m_node :: "Node option"
  m_parameter_listener :: "ParamListener option"
  m_params :: Params
  m_jmg :: "JointModelGroup option"
  m_joint_names :: "string list"
  m_link_names :: "string list"
  m_robot :: 'robot
  m_tip_link_indexes :: "nat list"
  m_active_variable_indexes :: "nat list"
  m_minimal_displacement_factors :: "real list"
  m_robot_model :: "RobotModel option"
  m_robot_description :: string
  m_group_name :: string
  m_base_frame :: string
  m_tip_frames :: "string list"
  m_redundant_joint_discretization :: "real list"

text \<open>
  \<^verbatim>\<open>storeValues\<close> of the base class, as the comment in \<^verbatim>\<open>initialize\<close> describes it: frame
  names are stored without leading slash, the discretization vector is initialized with the
  search discretization.
\<close>

fun removeSlash :: "string \<Rightarrow> string" where
  "removeSlash [] = []"
| "removeSlash (c # cs) = (if c = CHR ''/'' then removeSlash cs else c # cs)"

definition storeValues ::
  "'robot GDIKPlugin \<Rightarrow> RobotModel \<Rightarrow> string \<Rightarrow> string \<Rightarrow> string list \<Rightarrow> real \<Rightarrow> 'robot GDIKPlugin" where
  "storeValues this robot_model group_name base_frame tip_frames search_discretization =
     this\<lparr>m_robot_model := Some robot_model,
          m_robot_description := [],
          m_group_name := group_name,
          m_base_frame := removeSlash base_frame,
          m_tip_frames := map removeSlash tip_frames,
          m_redundant_joint_discretization := [search_discretization]\<rparr>"

definition getBaseFrame :: "'robot GDIKPlugin \<Rightarrow> string" where
  "getBaseFrame this = m_base_frame this"

subsection \<open>\<^verbatim>\<open>getJointNames\<close>, \<^verbatim>\<open>getLinkNames\<close>, \<^verbatim>\<open>getPositionFK\<close>, \<^verbatim>\<open>getPositionIK\<close>\<close>

definition getJointNames :: "'robot GDIKPlugin \<Rightarrow> string list" where
  "getJointNames this = m_joint_names this"

definition getLinkNames :: "'robot GDIKPlugin \<Rightarrow> string list" where
  "getLinkNames this = m_link_names this"

text \<open>Both return the flag and the output parameter \<^verbatim>\<open>poses\<close>, resp. \<^verbatim>\<open>solution\<close> and
  \<^verbatim>\<open>error_code\<close>, as the call leaves them.\<close>

definition getPositionFK ::
  "'robot GDIKPlugin \<Rightarrow> string list \<Rightarrow> real list \<Rightarrow> Pose list \<Rightarrow> bool \<times> Pose list" where
  "getPositionFK this link_names joint_angles poses = (False, poses)"

definition getPositionIK ::
  "'robot GDIKPlugin \<Rightarrow> Pose \<Rightarrow> real list \<Rightarrow> real list \<Rightarrow> MoveItErrorCodes \<Rightarrow> KinematicsQueryOptions
     \<Rightarrow> bool \<times> real list \<times> MoveItErrorCodes" where
  "getPositionIK this ik_pose ik_seed_state solution error_code options =
     (False, solution, error_code)"

subsection \<open>\<^verbatim>\<open>initialize\<close>\<close>

text \<open>
  The loop over the joint models of the group: a joint's name is pushed onto
  \<^verbatim>\<open>joint_names_\<close> when the name is not the base frame and the type is neither
  \<^verbatim>\<open>UNKNOWN\<close> nor \<^verbatim>\<open>FIXED\<close>.
\<close>

definition push_joint_name :: "string \<Rightarrow> JointModel \<Rightarrow> string list \<Rightarrow> string list" where
  "push_joint_name base_frame joint_model joint_names =
     (if getName joint_model \<noteq> base_frame \<and> getType joint_model \<noteq> UNKNOWN \<and>
         getType joint_model \<noteq> FIXED
      then joint_names @ [getName joint_model]
      else joint_names)"

text \<open>
  \<^verbatim>\<open>initialize\<close> returns its flag and the object as it leaves it. The group is looked up in
  the model that \<^verbatim>\<open>storeValues\<close> stored.
\<close>

definition initialize ::
  "('robot, 'st, 'frame) Library \<Rightarrow> 'robot GDIKPlugin \<Rightarrow> Node \<Rightarrow> RobotModel \<Rightarrow> string \<Rightarrow> string
     \<Rightarrow> string list \<Rightarrow> real \<Rightarrow> bool \<times> 'robot GDIKPlugin" where
  "initialize lib this node robot_model group_name base_frame tip_frames search_discretization =
     (let this = this\<lparr>m_node := Some node\<rparr>;
          listener = \<lparr>listener_node = node,
                      listener_prefix = ''robot_description_kinematics.'' @ group_name\<rparr>;
          this = this\<lparr>m_parameter_listener := Some listener\<rparr>;
          this = this\<lparr>m_params := get_params listener\<rparr>;
          this = storeValues this robot_model group_name base_frame tip_frames search_discretization;
          this = this\<lparr>m_jmg := (case m_robot_model this of
                                   None \<Rightarrow> None
                                 | Some model \<Rightarrow> getJointModelGroup model group_name)\<rparr>
      in case m_jmg this of
           None \<Rightarrow> (False, this)
         | Some jmg \<Rightarrow>
            (let this = this\<lparr>m_joint_names :=
                         fold (push_joint_name (m_base_frame this)) (getJointModels jmg)
                           (m_joint_names this)\<rparr>;
                 jmg_tips = getEndEffectorTips jmg;
                 this = (if jmg_tips \<noteq> [] then this\<lparr>m_tip_frames := jmg_tips\<rparr> else this);
                 this = this\<lparr>m_link_names := m_tip_frames this\<rparr>;
                 this = this\<lparr>m_robot := Robot_from lib (m_robot_model this)\<rparr>;
                 this = this\<lparr>m_tip_link_indexes :=
                         get_link_indexes lib (m_robot_model this) (m_tip_frames this)\<rparr>;
                 this = this\<lparr>m_active_variable_indexes :=
                         get_active_variable_indexes lib (m_robot_model this) (m_jmg this)
                           (m_tip_link_indexes this)\<rparr>;
                 this = this\<lparr>m_minimal_displacement_factors :=
                         get_minimal_displacement_factors lib (m_active_variable_indexes this)
                           (m_robot this)\<rparr>
             in (False, this)))"

subsection \<open>\<^verbatim>\<open>searchPositionIK\<close>\<close>

text \<open>
  The local values of the full overload, in the order the source computes them; the field
  \<open>local_goals\<close> holds the local \<^verbatim>\<open>goals\<close>, and so on.
\<close>

record ('robot, 'st, 'frame) SearchLocals =
  local_context_state :: 'st
  local_goal_frames :: "'frame list"
  local_frame_tests :: "FrameTestFn list"
  local_initial_guess :: "real list"
  local_active_initial_guess :: "real list"
  local_goals :: "('robot, 'st) Goal list"
  local_solution_test :: "real list \<Rightarrow> bool"

text \<open>
  Without a context state the source makes one from \<^verbatim>\<open>robot_model_\<close>, set to its default
  values. Before \<^verbatim>\<open>initialize\<close> that pointer is null and constructing the state dereferences
  it: the call has no result (\<open>None\<close>).
\<close>

definition get_context_state ::
  "('robot, 'st, 'frame) Library \<Rightarrow> 'robot GDIKPlugin \<Rightarrow> 'st option \<Rightarrow> 'st option" where
  "get_context_state lib this context_state =
     (case context_state of
        Some state \<Rightarrow> Some state
      | None \<Rightarrow> (case m_robot_model this of
                  None \<Rightarrow> None
                | Some model \<Rightarrow> Some (setToDefaultValues lib model)))"

text \<open>The block under the comment \<^verbatim>\<open>// Create goals\<close>; \<open>@ [g]\<close> is \<^verbatim>\<open>push_back\<close>.\<close>

definition create_goals ::
  "'robot GDIKPlugin \<Rightarrow> Pose list \<Rightarrow> 'st IKCostFn option \<Rightarrow> real list \<Rightarrow> real list
     \<Rightarrow> ('robot, 'st) Goal list" where
  "create_goals this ik_poses cost_function initial_guess active_initial_guess =
     (let goals = [];
          goals = (if center_joints_weight (m_params this) > 0
                   then goals @ [\<lparr>eval = make_center_joints_cost_fn (m_robot this)
                                            (m_active_variable_indexes this)
                                            (m_minimal_displacement_factors this),
                                   weight = center_joints_weight (m_params this)\<rparr>]
                   else goals);
          goals = (if avoid_joint_limits_weight (m_params this) > 0
                   then goals @ [\<lparr>eval = make_avoid_joint_limits_cost_fn (m_robot this)
                                            (m_active_variable_indexes this)
                                            (m_minimal_displacement_factors this),
                                   weight = avoid_joint_limits_weight (m_params this)\<rparr>]
                   else goals);
          goals = (if minimal_displacement_weight (m_params this) > 0
                   then goals @ [\<lparr>eval = make_minimal_displacement_cost_fn active_initial_guess
                                            (m_minimal_displacement_factors this),
                                   weight = minimal_displacement_weight (m_params this)\<rparr>]
                   else goals);
          goals = (case cost_function of
                     None \<Rightarrow> goals
                   | Some f \<Rightarrow>
                       fold (\<lambda>pose goals.
                               goals @ [\<lparr>eval = make_ik_cost_fn pose f (m_robot_model this)
                                                  (m_jmg this) initial_guess,
                                         weight = 1\<rparr>])
                         ik_poses goals)
      in goals)"

definition searchPositionIK_locals ::
  "('robot, 'st, 'frame) Library \<Rightarrow> 'robot GDIKPlugin \<Rightarrow> Pose list \<Rightarrow> real list \<Rightarrow> real \<Rightarrow> real list
     \<Rightarrow> real list \<Rightarrow> IKCallbackFn option \<Rightarrow> 'st IKCostFn option \<Rightarrow> MoveItErrorCodes
     \<Rightarrow> KinematicsQueryOptions \<Rightarrow> 'st option \<Rightarrow> ('robot, 'st, 'frame) SearchLocals option" where
  "searchPositionIK_locals lib this ik_poses ik_seed_state timeout consistency_limits solution
       solution_callback cost_function error_code options context_state =
     (case get_context_state lib this context_state of
        None \<Rightarrow> None
      | Some context_state \<Rightarrow>
         (let goal_frames = transform_poses_to_frames lib context_state ik_poses (getBaseFrame this);
              frame_tests = make_frame_tests lib goal_frames (position_threshold (m_params this))
                              (rotation_threshold (m_params this)) (twist_threshold (m_params this));
              initial_guess = get_variables lib context_state
          in case select initial_guess (m_active_variable_indexes this) of
               None \<Rightarrow> None
             | Some active_initial_guess \<Rightarrow>
                (let goals = create_goals this ik_poses cost_function initial_guess
                               active_initial_guess;
                     solution_test = make_is_solution_test_fn (CostFn_call lib) frame_tests goals
                                       (cost_threshold (m_params this))
                 in Some \<lparr>local_context_state = context_state, local_goal_frames = goal_frames,
                           local_frame_tests = frame_tests, local_initial_guess = initial_guess,
                           local_active_initial_guess = active_initial_guess, local_goals = goals,
                           local_solution_test = solution_test\<rparr>)))"

text \<open>
  The full overload (ten parameters). The result is the returned flag with the output
  parameters \<^verbatim>\<open>solution\<close> and \<^verbatim>\<open>error_code\<close> as the call leaves them.
\<close>

definition searchPositionIK ::
  "('robot, 'st, 'frame) Library \<Rightarrow> 'robot GDIKPlugin \<Rightarrow> Pose list \<Rightarrow> real list \<Rightarrow> real \<Rightarrow> real list
     \<Rightarrow> real list \<Rightarrow> IKCallbackFn option \<Rightarrow> 'st IKCostFn option \<Rightarrow> MoveItErrorCodes
     \<Rightarrow> KinematicsQueryOptions \<Rightarrow> 'st option \<Rightarrow> (bool \<times> real list \<times> MoveItErrorCodes) option" where
  "searchPositionIK lib this ik_poses ik_seed_state timeout consistency_limits solution
       solution_callback cost_function error_code options context_state =
     (case searchPositionIK_locals lib this ik_poses ik_seed_state timeout consistency_limits
             solution solution_callback cost_function error_code options context_state of
        None \<Rightarrow> None
      | Some locals \<Rightarrow> Some (False, solution, error_code))"

text \<open>
  The delegating overloads. C++ resolves the overloads by their parameter lists; here each
  has a name of its own: \<open>searchPositionIK_poses\<close> is the multi-pose overload without cost
  function, the four others take a single pose, with or without consistency limits and
  solution callback. The single-pose overloads pass eight arguments, which selects
  \<open>searchPositionIK_poses\<close> with its default null context state.
\<close>

definition searchPositionIK_poses ::
  "('robot, 'st, 'frame) Library \<Rightarrow> 'robot GDIKPlugin \<Rightarrow> Pose list \<Rightarrow> real list \<Rightarrow> real \<Rightarrow> real list
     \<Rightarrow> real list \<Rightarrow> IKCallbackFn option \<Rightarrow> MoveItErrorCodes
     \<Rightarrow> KinematicsQueryOptions \<Rightarrow> 'st option \<Rightarrow> (bool \<times> real list \<times> MoveItErrorCodes) option" where
  "searchPositionIK_poses lib this ik_poses ik_seed_state timeout consistency_limits solution
       solution_callback error_code options context_state =
     searchPositionIK lib this ik_poses ik_seed_state timeout consistency_limits solution
       solution_callback None error_code options context_state"

definition searchPositionIK_pose ::
  "('robot, 'st, 'frame) Library \<Rightarrow> 'robot GDIKPlugin \<Rightarrow> Pose \<Rightarrow> real list \<Rightarrow> real
     \<Rightarrow> real list \<Rightarrow> MoveItErrorCodes
     \<Rightarrow> KinematicsQueryOptions \<Rightarrow> (bool \<times> real list \<times> MoveItErrorCodes) option" where
  "searchPositionIK_pose lib this ik_pose ik_seed_state timeout solution error_code options =
     searchPositionIK_poses lib this [ik_pose] ik_seed_state timeout [] solution None
       error_code options None"

definition searchPositionIK_pose_limits ::
  "('robot, 'st, 'frame) Library \<Rightarrow> 'robot GDIKPlugin \<Rightarrow> Pose \<Rightarrow> real list \<Rightarrow> real \<Rightarrow> real list
     \<Rightarrow> real list \<Rightarrow> MoveItErrorCodes
     \<Rightarrow> KinematicsQueryOptions \<Rightarrow> (bool \<times> real list \<times> MoveItErrorCodes) option" where
  "searchPositionIK_pose_limits lib this ik_pose ik_seed_state timeout consistency_limits
       solution error_code options =
     searchPositionIK_poses lib this [ik_pose] ik_seed_state timeout consistency_limits solution
       None error_code options None"

definition searchPositionIK_pose_callback ::
  "('robot, 'st, 'frame) Library \<Rightarrow> 'robot GDIKPlugin \<Rightarrow> Pose \<Rightarrow> real list \<Rightarrow> real
     \<Rightarrow> real list \<Rightarrow> IKCallbackFn option \<Rightarrow> MoveItErrorCodes
     \<Rightarrow> KinematicsQueryOptions \<Rightarrow> (bool \<times> real list \<times> MoveItErrorCodes) option" where
  "searchPositionIK_pose_callback lib this ik_pose ik_seed_state timeout solution
       solution_callback error_code options =
     searchPositionIK_poses lib this [ik_pose] ik_seed_state timeout [] solution
       solution_callback error_code options None"

definition searchPositionIK_pose_limits_callback ::
  "('robot, 'st, 'frame) Library \<Rightarrow> 'robot GDIKPlugin \<Rightarrow> Pose \<Rightarrow> real list \<Rightarrow> real \<Rightarrow> real list
     \<Rightarrow> real list \<Rightarrow> IKCallbackFn option \<Rightarrow> MoveItErrorCodes
     \<Rightarrow> KinematicsQueryOptions \<Rightarrow> (bool \<times> real list \<times> MoveItErrorCodes) option" where
  "searchPositionIK_pose_limits_callback lib this ik_pose ik_seed_state timeout
       consistency_limits solution solution_callback error_code options =
     searchPositionIK_poses lib this [ik_pose] ik_seed_state timeout consistency_limits solution
       solution_callback error_code options None"

subsection \<open>An example: a group of two moving joints\<close>

text \<open>
  A concrete robot model, node and solver library on which the methods can be evaluated. The
  group \<open>arm\<close> has two moving joints among five; a state is its vector of three variables,
  of which the first two are active; the tip's forward kinematics is the sum of the active
  joint values along the x axis, and a frame test compares it with the target's x coordinate
  within the position threshold.
\<close>

definition example_arm :: JointModelGroup where
  "example_arm =
     \<lparr>getJointModels =
        [\<lparr>getName = ''world_joint'', getType = FIXED\<rparr>,
         \<lparr>getName = ''shoulder'', getType = REVOLUTE\<rparr>,
         \<lparr>getName = ''base_link'', getType = REVOLUTE\<rparr>,
         \<lparr>getName = ''slider'', getType = PRISMATIC\<rparr>,
         \<lparr>getName = ''probe'', getType = UNKNOWN\<rparr>],
      getEndEffectorTips = [''tool0'']\<rparr>"

definition example_model :: RobotModel where
  "example_model = \<lparr>joint_model_groups = [(''arm'', example_arm)]\<rparr>"

definition example_params :: Params where
  "example_params =
     \<lparr>position_threshold = 1 / 10, rotation_threshold = 1 / 10, twist_threshold = 1 / 10,
      cost_threshold = 1, center_joints_weight = 1, avoid_joint_limits_weight = 0,
      minimal_displacement_weight = 1 / 2\<rparr>"

definition example_node :: Node where
  "example_node = (\<lambda>prefix. example_params)"

definition example_lib :: "(unit, real list, Pose) Library" where
  "example_lib =
     \<lparr>Robot_from = (\<lambda>model. ()),
      get_link_indexes = (\<lambda>model names. [2]),
      get_active_variable_indexes = (\<lambda>model jmg tips. [0, 1]),
      get_minimal_displacement_factors = (\<lambda>indexes robot. map (\<lambda>index. 1) indexes),
      setToDefaultValues = (\<lambda>model. [0, 0, 0]),
      get_variables = (\<lambda>state. state),
      transform_poses_to_frames = (\<lambda>state poses base. poses),
      make_frame_tests = (\<lambda>frames p r t.
         map (\<lambda>frame candidate. \<bar>fst (position frame) - sum_list candidate\<bar> \<le> p) frames),
      CostFn_call = (\<lambda>cost candidate. 0)\<rparr>"

text \<open>A plugin object on which \<^verbatim>\<open>initialize\<close> has not run, and the one it leaves.\<close>

definition example_new :: "unit GDIKPlugin" where
  "example_new =
     \<lparr>m_node = None, m_parameter_listener = None,
      m_params = \<lparr>position_threshold = 0, rotation_threshold = 0, twist_threshold = 0,
                   cost_threshold = 0, center_joints_weight = 0, avoid_joint_limits_weight = 0,
                   minimal_displacement_weight = 0\<rparr>,
      m_jmg = None, m_joint_names = [], m_link_names = [], m_robot = (),
      m_tip_link_indexes = [], m_active_variable_indexes = [],
      m_minimal_displacement_factors = [], m_robot_model = None, m_robot_description = [],
      m_group_name = [], m_base_frame = [], m_tip_frames = [],
      m_redundant_joint_discretization = []\<rparr>"

definition example_plugin :: "unit GDIKPlugin" where
  "example_plugin =
     snd (initialize example_lib example_new example_node example_model ''arm'' ''/base_link''
            [''/tool0''] (1 / 10))"

definition example_pose :: "real \<Rightarrow> Pose" where
  "example_pose x = \<lparr>position = (x, 0, 0), orientation = (0, 0, 0, 1)\<rparr>"

definition example_options :: KinematicsQueryOptions where
  "example_options = \<lparr>lock_redundant_joints = False, return_approximate_solution = False\<rparr>"

text \<open>
  A caller's cost function, and an interpretation of the cost closures in which the
  minimal-displacement cost is the distance of the first joint from its seed value.
\<close>

definition example_cost_function :: "real list IKCostFn" where
  "example_cost_function pose state jmg variables = 0"

definition example_call :: "(unit, real list) CostFn \<Rightarrow> real list \<Rightarrow> real" where
  "example_call cost candidate =
     (case cost of
        make_minimal_displacement_cost_fn seed factors \<Rightarrow> \<bar>hd candidate - hd seed\<bar>
      | _ \<Rightarrow> 0)"

text \<open>A second interpretation, which differs on the avoid-joint-limits cost only.\<close>

definition example_call' :: "(unit, real list) CostFn \<Rightarrow> real list \<Rightarrow> real" where
  "example_call' cost candidate =
     (if is_avoid_joint_limits_cost_fn cost then 100 else example_call cost candidate)"

text \<open>
  A library whose default state is not the zero vector, and a plugin whose active-variable
  indexes are not a prefix of the variable indexes.
\<close>

definition example_lib_defaults :: "(unit, real list, Pose) Library" where
  "example_lib_defaults = example_lib\<lparr>setToDefaultValues := (\<lambda>model. [1, 2, 3])\<rparr>"

definition example_plugin_reordered :: "unit GDIKPlugin" where
  "example_plugin_reordered = example_plugin\<lparr>m_active_variable_indexes := [2, 0]\<rparr>"



section \<open>Properties\<close>

subsection \<open>Loops as list functions\<close>

lemma fold_push_back: "fold (\<lambda>x acc. acc @ [f x]) xs acc = acc @ map f xs"
  by (induction xs arbitrary: acc) simp_all


lemma all_frame_tests_pass_iff:
  "all_frame_tests_pass frame_tests candidate \<longleftrightarrow>
   (\<forall>frame_test\<in>set frame_tests. frame_test candidate)"
  by (induction frame_tests) simp_all

lemma fold_weighted_sum:
  "fold (\<lambda>goal sum. sum + f goal) goals (a::real) = a + sum_list (map f goals)"
  by (induction goals arbitrary: a) simp_all

lemma weighted_cost_sum_list:
  "weighted_cost call goals candidate =
   (\<Sum>goal\<leftarrow>goals. weight goal * call (eval goal) candidate)"
  by (simp add: weighted_cost_def fold_weighted_sum)

lemma weighted_cost_agree:
  "(\<And>goal. goal \<in> set goals \<Longrightarrow> call (eval goal) candidate = call' (eval goal) candidate)
   \<Longrightarrow> weighted_cost call goals candidate = weighted_cost call' goals candidate"
  unfolding weighted_cost_sum_list
  by (rule arg_cong [where f = sum_list], rule map_cong) simp_all

lemma filter_map_False: "(\<And>x. \<not> P (f x)) \<Longrightarrow> filter P (map f xs) = []"
  by (induction xs) simp_all

lemma filter_map_True: "(\<And>x. P (f x)) \<Longrightarrow> filter P (map f xs) = map f xs"
  by (induction xs) simp_all

text \<open>The goal list is the concatenation of four segments, one per \<^verbatim>\<open>if\<close> of the source.\<close>

lemma create_goals_append:
  "create_goals this ik_poses cost_function initial_guess active_initial_guess =
     (if center_joints_weight (m_params this) > 0
      then [\<lparr>eval = make_center_joints_cost_fn (m_robot this) (m_active_variable_indexes this)
                      (m_minimal_displacement_factors this),
             weight = center_joints_weight (m_params this)\<rparr>]
      else []) @
     (if avoid_joint_limits_weight (m_params this) > 0
      then [\<lparr>eval = make_avoid_joint_limits_cost_fn (m_robot this) (m_active_variable_indexes this)
                      (m_minimal_displacement_factors this),
             weight = avoid_joint_limits_weight (m_params this)\<rparr>]
      else []) @
     (if minimal_displacement_weight (m_params this) > 0
      then [\<lparr>eval = make_minimal_displacement_cost_fn active_initial_guess
                      (m_minimal_displacement_factors this),
             weight = minimal_displacement_weight (m_params this)\<rparr>]
      else []) @
     (case cost_function of
        None \<Rightarrow> []
      | Some f \<Rightarrow> map (\<lambda>pose. \<lparr>eval = make_ik_cost_fn pose f (m_robot_model this) (m_jmg this)
                                      initial_guess,
                             weight = 1\<rparr>) ik_poses)"
  by (simp add: create_goals_def fold_push_back split: option.split)

subsection \<open>What every call returns\<close>

lemma initialize_returns_false:
  "fst (initialize lib this node robot_model group_name base_frame tip_frames
          search_discretization) = False"
  by (simp add: initialize_def Let_def split: option.split)

lemma searchPositionIK_returns:
  "searchPositionIK lib this ik_poses ik_seed_state timeout consistency_limits solution
       solution_callback cost_function error_code options context_state = Some result
   \<Longrightarrow> result = (False, solution, error_code)"
  by (auto simp add: searchPositionIK_def split: option.splits)

subsection \<open>The example, evaluated\<close>

lemma example_plugin_members:
  "m_params example_plugin = example_params"
  "m_robot_model example_plugin = Some example_model"
  "m_jmg example_plugin = Some example_arm"
  "m_active_variable_indexes example_plugin = [0, 1]"
  "m_minimal_displacement_factors example_plugin = [1, 1]"
  "m_base_frame example_plugin = ''base_link''"
  "m_joint_names example_plugin = [''shoulder'', ''slider'']"
  "m_robot example_plugin = ()"
  by (simp_all add: example_plugin_def initialize_def storeValues_def getJointModelGroup_def
        example_model_def example_arm_def get_params_def example_node_def example_lib_def
        example_new_def push_joint_name_def Let_def)

lemma example_locals:
  "searchPositionIK_locals example_lib example_plugin ik_poses ik_seed_state timeout
       consistency_limits solution solution_callback cost_function error_code options
       (if given then Some [5, 6, 7] else None) \<noteq> None"
  by (simp add: searchPositionIK_locals_def get_context_state_def example_plugin_members
        example_lib_def select_def Let_def)

lemma example_locals_reordered:
  "searchPositionIK_locals example_lib_defaults example_plugin_reordered ik_poses ik_seed_state
       timeout consistency_limits solution solution_callback cost_function error_code options
       (if given then Some [5, 6, 7] else None) \<noteq> None"
  by (simp add: searchPositionIK_locals_def get_context_state_def example_plugin_members
        example_lib_def example_lib_defaults_def example_plugin_reordered_def select_def Let_def)

subsection \<open>The claims\<close>

text \<open>
  C1. The claim: for every valid input the full overload of \<^verbatim>\<open>searchPositionIK\<close> returns
  either success with a joint vector that satisfies the solution test, or a typed failure,
  and for some reachable input it returns success. The source does not do this. Its last
  statement is \<^verbatim>\<open>return false\<close>: the solution test it has just built is never called, and
  neither \<^verbatim>\<open>solution\<close> nor \<^verbatim>\<open>error_code\<close> is written. In the example the target is the
  forward kinematics of the default state, the seed passes the solution test, and the call
  returns false with the empty solution and the error code it was given.
\<close>

theorem searchPositionIK_fails_on_reachable_target:
  "map_option (\<lambda>locals. local_solution_test locals (local_active_initial_guess locals))
     (searchPositionIK_locals example_lib example_plugin [example_pose 0] [0, 0, 0] 1 [] []
        None None \<lparr>val = 0\<rparr> example_options None) = Some True \<and>
   searchPositionIK example_lib example_plugin [example_pose 0] [0, 0, 0] 1 [] [] None None
       \<lparr>val = 0\<rparr> example_options None = Some (False, [], \<lparr>val = 0\<rparr>)"
  by (simp add: searchPositionIK_def searchPositionIK_locals_def get_context_state_def
        example_plugin_members example_lib_def select_def Let_def make_is_solution_test_fn_def
        weighted_cost_def create_goals_def example_params_def example_pose_def)

text \<open>
  C2, as the claim states it, fails: the active seed vector is not selected from
  \<^verbatim>\<open>ik_seed_state\<close>. With the seed \<open>[1, 2, 3]\<close> and a context state whose variables are
  \<open>[5, 6, 7]\<close> the active initial guess is \<open>[5, 6]\<close>, not \<open>[1, 2]\<close>.
\<close>

theorem active_seed_not_from_ik_seed_state:
  "map_option local_active_initial_guess
     (searchPositionIK_locals example_lib example_plugin [example_pose 0] [1, 2, 3] 1 [] []
        None None \<lparr>val = 0\<rparr> example_options (Some [5, 6, 7]))
   \<noteq> select [1, 2, 3] (m_active_variable_indexes example_plugin)"
  by (simp add: searchPositionIK_locals_def get_context_state_def
        example_plugin_members example_lib_def select_def Let_def)

text \<open>
  C2, amended. Whenever the preparation of a search call completes, the context state is
  the one the caller passed or, when none was passed, the state of the robot model set to
  its default values; the initial guess is the full variable vector of that state; every
  active-variable index is in its range; and the active seed vector is the list of its
  entries at the active-variable indexes, in the order of the indexes.
\<close>

theorem active_seed_from_context_state:
  assumes "searchPositionIK_locals lib this ik_poses ik_seed_state timeout consistency_limits
             solution solution_callback cost_function error_code options context_state
           = Some locals"
  shows "(\<forall>state. context_state = Some state \<longrightarrow> local_context_state locals = state) \<and>
         (context_state = None \<longrightarrow>
            (\<exists>model. m_robot_model this = Some model \<and>
                     local_context_state locals = setToDefaultValues lib model)) \<and>
         local_initial_guess locals = get_variables lib (local_context_state locals) \<and>
         (\<forall>index\<in>set (m_active_variable_indexes this).
            index < length (local_initial_guess locals)) \<and>
         local_active_initial_guess locals =
           map (\<lambda>index. local_initial_guess locals ! index) (m_active_variable_indexes this)"
  using assms
  by (auto simp add: searchPositionIK_locals_def get_context_state_def select_def Let_def
        list_all_iff split: option.splits if_splits)

text \<open>
  With the active indexes \<open>[2, 0]\<close>: a passed context state with variables \<open>[5, 6, 7]\<close>
  gives the active seed \<open>[7, 5]\<close>; without a context state the default values
  \<open>[1, 2, 3]\<close> give \<open>[3, 1]\<close>. The seed \<open>[1, 1, 1]\<close> of the call appears in neither.
\<close>

theorem active_seed_from_context_state_witness:
  "(\<exists>locals.
      searchPositionIK_locals example_lib_defaults example_plugin_reordered [example_pose 0]
         [1, 1, 1] 1 [] [] None None \<lparr>val = 0\<rparr> example_options (Some [5, 6, 7]) = Some locals \<and>
      local_context_state locals = [5, 6, 7] \<and>
      local_initial_guess locals = [5, 6, 7] \<and>
      local_active_initial_guess locals = [7, 5]) \<and>
   (\<exists>locals.
      searchPositionIK_locals example_lib_defaults example_plugin_reordered [example_pose 0]
         [1, 1, 1] 1 [] [] None None \<lparr>val = 0\<rparr> example_options None = Some locals \<and>
      local_context_state locals = [1, 2, 3] \<and>
      local_initial_guess locals = [1, 2, 3] \<and>
      local_active_initial_guess locals = [3, 1])"
proof -
  have members: "m_active_variable_indexes example_plugin_reordered = [2, 0]"
    "m_robot_model example_plugin_reordered = Some example_model"
    by (simp_all add: example_plugin_reordered_def example_plugin_members)
  have lib: "get_variables example_lib_defaults = (\<lambda>state. state)"
    "setToDefaultValues example_lib_defaults = (\<lambda>model. [1, 2, 3])"
    by (simp_all add: example_lib_defaults_def example_lib_def)
  obtain passed where run_passed:
    "searchPositionIK_locals example_lib_defaults example_plugin_reordered [example_pose 0]
        [1, 1, 1] 1 [] [] None None \<lparr>val = 0\<rparr> example_options (Some [5, 6, 7]) = Some passed"
    using example_locals_reordered [of "[example_pose 0]" "[1, 1, 1]" 1 "[]" "[]" None None
            "\<lparr>val = 0\<rparr>" example_options True]
    by auto
  obtain made where run_made:
    "searchPositionIK_locals example_lib_defaults example_plugin_reordered [example_pose 0]
        [1, 1, 1] 1 [] [] None None \<lparr>val = 0\<rparr> example_options None = Some made"
    using example_locals_reordered [of "[example_pose 0]" "[1, 1, 1]" 1 "[]" "[]" None None
            "\<lparr>val = 0\<rparr>" example_options False]
    by auto
  from active_seed_from_context_state [OF run_passed]
  have "local_context_state passed = [5, 6, 7] \<and> local_initial_guess passed = [5, 6, 7] \<and>
        local_active_initial_guess passed = [7, 5]"
    by (simp add: members lib)
  moreover from active_seed_from_context_state [OF run_made]
  have "local_context_state made = [1, 2, 3] \<and> local_initial_guess made = [1, 2, 3] \<and>
        local_active_initial_guess made = [3, 1]"
    by (simp add: members lib)
  ultimately show ?thesis using run_passed run_made by blast
qed

text \<open>
  C3. The claim: \<^verbatim>\<open>initialize\<close> reports failure when the named planning group is absent
  from the robot model and success when it is present. The source returns false on both
  paths: after the group has been found and every member has been set, its last statement is
  \<^verbatim>\<open>return false\<close>, the value it also returns, with an error message, for a missing group.
  In the example the group \<open>arm\<close> is present, \<^verbatim>\<open>initialize\<close> computes the joint names and
  returns false.
\<close>

theorem initialize_fails_with_group_present:
  "getJointModelGroup example_model ''arm'' = Some example_arm \<and>
   fst (initialize example_lib example_new example_node example_model ''arm'' ''/base_link''
          [''/tool0''] (1 / 10)) = False \<and>
   getJointNames (snd (initialize example_lib example_new example_node example_model ''arm''
          ''/base_link'' [''/tool0''] (1 / 10))) = [''shoulder'', ''slider'']"
proof -
  have group: "getJointModelGroup example_model ''arm'' = Some example_arm"
    by (simp add: getJointModelGroup_def example_model_def)
  have flag: "fst (initialize example_lib example_new example_node example_model ''arm''
          ''/base_link'' [''/tool0''] (1 / 10)) = False"
    by (simp add: initialize_def storeValues_def group Let_def)
  have names: "getJointNames (snd (initialize example_lib example_new example_node example_model
          ''arm'' ''/base_link'' [''/tool0''] (1 / 10))) = [''shoulder'', ''slider'']"
    using example_plugin_members(7) by (simp add: getJointNames_def example_plugin_def)
  from group flag names show ?thesis by simp
qed

text \<open>
  C4. For each built-in goal (center joints, avoid joint limits, minimal displacement) the
  goal list holds no goal with that cost function when the configured weight is not
  strictly positive, and exactly one, carrying the configured weight, when it is. The
  weighted sum over the goal list is therefore the same under any two interpretations of
  the cost functions that agree everywhere except on built-in cost functions whose weight
  is not strictly positive: what such a cost function would return has no influence.
\<close>

theorem builtin_goal_added_iff_weight_positive:
  "filter (\<lambda>goal. is_center_joints_cost_fn (eval goal))
      (create_goals this ik_poses cost_function initial_guess active_initial_guess) =
     (if center_joints_weight (m_params this) > 0
      then [\<lparr>eval = make_center_joints_cost_fn (m_robot this) (m_active_variable_indexes this)
                      (m_minimal_displacement_factors this),
             weight = center_joints_weight (m_params this)\<rparr>]
      else []) \<and>
   filter (\<lambda>goal. is_avoid_joint_limits_cost_fn (eval goal))
      (create_goals this ik_poses cost_function initial_guess active_initial_guess) =
     (if avoid_joint_limits_weight (m_params this) > 0
      then [\<lparr>eval = make_avoid_joint_limits_cost_fn (m_robot this) (m_active_variable_indexes this)
                      (m_minimal_displacement_factors this),
             weight = avoid_joint_limits_weight (m_params this)\<rparr>]
      else []) \<and>
   filter (\<lambda>goal. is_minimal_displacement_cost_fn (eval goal))
      (create_goals this ik_poses cost_function initial_guess active_initial_guess) =
     (if minimal_displacement_weight (m_params this) > 0
      then [\<lparr>eval = make_minimal_displacement_cost_fn active_initial_guess
                      (m_minimal_displacement_factors this),
             weight = minimal_displacement_weight (m_params this)\<rparr>]
      else []) \<and>
   ((\<forall>cost.
       (is_center_joints_cost_fn cost \<longrightarrow> center_joints_weight (m_params this) > 0) \<and>
       (is_avoid_joint_limits_cost_fn cost \<longrightarrow> avoid_joint_limits_weight (m_params this) > 0) \<and>
       (is_minimal_displacement_cost_fn cost \<longrightarrow> minimal_displacement_weight (m_params this) > 0)
       \<longrightarrow> call cost = call' cost)
    \<longrightarrow> weighted_cost call
          (create_goals this ik_poses cost_function initial_guess active_initial_guess) candidate =
        weighted_cost call'
          (create_goals this ik_poses cost_function initial_guess active_initial_guess) candidate)"
  (is "?center \<and> ?avoid \<and> ?minimal \<and> (?agree \<longrightarrow> ?same)")
proof -
  have filters: "?center \<and> ?avoid \<and> ?minimal"
    by (simp add: create_goals_append filter_map_False split: option.split)
  have sum: "?agree \<longrightarrow> ?same"
  proof
    assume agree: ?agree
    show ?same
    proof (rule weighted_cost_agree)
      fix goal
      assume "goal \<in> set (create_goals this ik_poses cost_function initial_guess
                             active_initial_guess)"
      then have
        "(is_center_joints_cost_fn (eval goal) \<longrightarrow> center_joints_weight (m_params this) > 0) \<and>
         (is_avoid_joint_limits_cost_fn (eval goal) \<longrightarrow>
            avoid_joint_limits_weight (m_params this) > 0) \<and>
         (is_minimal_displacement_cost_fn (eval goal) \<longrightarrow>
            minimal_displacement_weight (m_params this) > 0)"
        by (auto simp add: create_goals_append split: if_splits option.splits)
      with agree show "call (eval goal) candidate = call' (eval goal) candidate"
        by simp
    qed
  qed
  from filters sum show ?thesis by blast
qed

text \<open>
  In the example the weights are 1, 0 and 1/2: the center-joints and minimal-displacement
  goals are in the list, the avoid-joint-limits goal is not, and the weighted sum at the
  candidate \<open>[3, 0]\<close> is 3/2 whether the avoid-joint-limits cost is 0 or 100.
\<close>

theorem builtin_goal_added_iff_weight_positive_witness:
  "filter (\<lambda>goal. is_center_joints_cost_fn (eval goal))
      (create_goals example_plugin [example_pose 0] (Some example_cost_function) [0, 0, 0] [0, 0])
     = [\<lparr>eval = make_center_joints_cost_fn () [0, 1] [1, 1], weight = 1\<rparr>] \<and>
   filter (\<lambda>goal. is_avoid_joint_limits_cost_fn (eval goal))
      (create_goals example_plugin [example_pose 0] (Some example_cost_function) [0, 0, 0] [0, 0])
     = [] \<and>
   filter (\<lambda>goal. is_minimal_displacement_cost_fn (eval goal))
      (create_goals example_plugin [example_pose 0] (Some example_cost_function) [0, 0, 0] [0, 0])
     = [\<lparr>eval = make_minimal_displacement_cost_fn [0, 0] [1, 1], weight = 1 / 2\<rparr>] \<and>
   weighted_cost example_call
      (create_goals example_plugin [example_pose 0] (Some example_cost_function) [0, 0, 0] [0, 0])
      [3, 0] = 3 / 2 \<and>
   weighted_cost example_call'
      (create_goals example_plugin [example_pose 0] (Some example_cost_function) [0, 0, 0] [0, 0])
      [3, 0] = 3 / 2"
proof -
  note goals = builtin_goal_added_iff_weight_positive [of example_plugin "[example_pose 0]"
      "Some example_cost_function" "[0, 0, 0]" "[0, 0]" example_call example_call' "[3, 0]"]
  have agree:
    "\<forall>cost.
       (is_center_joints_cost_fn cost \<longrightarrow> center_joints_weight (m_params example_plugin) > 0) \<and>
       (is_avoid_joint_limits_cost_fn cost \<longrightarrow>
          avoid_joint_limits_weight (m_params example_plugin) > 0) \<and>
       (is_minimal_displacement_cost_fn cost \<longrightarrow>
          minimal_displacement_weight (m_params example_plugin) > 0)
       \<longrightarrow> example_call cost = example_call' cost"
    by (auto simp add: example_call'_def example_plugin_members example_params_def)
  have at_candidate: "weighted_cost example_call
      (create_goals example_plugin [example_pose 0] (Some example_cost_function) [0, 0, 0] [0, 0])
      [3, 0] = 3 / 2"
    by (simp add: weighted_cost_def create_goals_def example_plugin_members example_params_def
          example_call_def)
  from goals agree at_candidate show ?thesis
    by (simp add: example_plugin_members example_params_def)
qed

text \<open>
  C5. The solution test accepts a candidate if and only if every frame test passes and the
  weighted sum of the goal costs is at most the cost threshold; a candidate that passes all
  frame tests but whose weighted sum exceeds the threshold is rejected, and a candidate
  whose weighted sum is within the threshold but that fails some frame test is rejected.
\<close>

theorem solution_test_conjunction:
  "(make_is_solution_test_fn call frame_tests goals threshold candidate \<longleftrightarrow>
      (\<forall>frame_test\<in>set frame_tests. frame_test candidate) \<and>
      (\<Sum>goal\<leftarrow>goals. weight goal * call (eval goal) candidate) \<le> threshold) \<and>
   ((\<forall>frame_test\<in>set frame_tests. frame_test candidate) \<and>
      (\<Sum>goal\<leftarrow>goals. weight goal * call (eval goal) candidate) > threshold
      \<longrightarrow> \<not> make_is_solution_test_fn call frame_tests goals threshold candidate) \<and>
   ((\<Sum>goal\<leftarrow>goals. weight goal * call (eval goal) candidate) \<le> threshold \<and>
      (\<exists>frame_test\<in>set frame_tests. \<not> frame_test candidate)
      \<longrightarrow> \<not> make_is_solution_test_fn call frame_tests goals threshold candidate)"
  by (auto simp add: make_is_solution_test_fn_def all_frame_tests_pass_iff weighted_cost_sum_list)

text \<open>
  Two frame tests and two goals with weighted sum \<open>2 * 2 + 1 * 0 = 4\<close> at the candidate
  \<open>[3]\<close>: accepted under threshold 5, rejected under threshold 3; the candidate \<open>[5]\<close>
  fails the first frame test and is rejected under threshold 100.
\<close>

theorem solution_test_conjunction_witness:
  "make_is_solution_test_fn example_call
      [\<lambda>candidate. hd candidate \<le> 4, \<lambda>candidate. 0 \<le> hd candidate]
      [\<lparr>eval = make_minimal_displacement_cost_fn [1] [1], weight = 2\<rparr>,
       \<lparr>eval = make_center_joints_cost_fn () [0] [1], weight = 1\<rparr>] 5 [3] \<and>
   \<not> make_is_solution_test_fn example_call
      [\<lambda>candidate. hd candidate \<le> 4, \<lambda>candidate. 0 \<le> hd candidate]
      [\<lparr>eval = make_minimal_displacement_cost_fn [1] [1], weight = 2\<rparr>,
       \<lparr>eval = make_center_joints_cost_fn () [0] [1], weight = 1\<rparr>] 3 [3] \<and>
   \<not> make_is_solution_test_fn example_call
      [\<lambda>candidate. hd candidate \<le> 4, \<lambda>candidate. 0 \<le> hd candidate]
      [\<lparr>eval = make_minimal_displacement_cost_fn [1] [1], weight = 2\<rparr>,
       \<lparr>eval = make_center_joints_cost_fn () [0] [1], weight = 1\<rparr>] 100 [5]"
  using solution_test_conjunction [of example_call
          "[\<lambda>candidate. hd candidate \<le> 4, \<lambda>candidate. 0 \<le> hd candidate]"
          "[\<lparr>eval = make_minimal_displacement_cost_fn [1] [1], weight = 2\<rparr>,
            \<lparr>eval = make_center_joints_cost_fn () [0] [1], weight = 1\<rparr>]" 5 "[3]"]
        solution_test_conjunction [of example_call
          "[\<lambda>candidate. hd candidate \<le> 4, \<lambda>candidate. 0 \<le> hd candidate]"
          "[\<lparr>eval = make_minimal_displacement_cost_fn [1] [1], weight = 2\<rparr>,
            \<lparr>eval = make_center_joints_cost_fn () [0] [1], weight = 1\<rparr>]" 3 "[3]"]
        solution_test_conjunction [of example_call
          "[\<lambda>candidate. hd candidate \<le> 4, \<lambda>candidate. 0 \<le> hd candidate]"
          "[\<lparr>eval = make_minimal_displacement_cost_fn [1] [1], weight = 2\<rparr>,
            \<lparr>eval = make_center_joints_cost_fn () [0] [1], weight = 1\<rparr>]" 100 "[5]"]
  by (simp add: example_call_def)




text \<open>
  C7. When the caller supplies a cost function, the goals built from it are exactly one per
  target pose of the request, in the order of the poses, each with weight 1; their number
  is the number of poses. When no cost function is supplied there is no such goal.
\<close>

theorem ik_cost_goal_per_pose:
  "filter (\<lambda>goal. is_ik_cost_fn (eval goal))
      (create_goals this ik_poses cost_function initial_guess active_initial_guess) =
     (case cost_function of
        None \<Rightarrow> []
      | Some f \<Rightarrow> map (\<lambda>pose. \<lparr>eval = make_ik_cost_fn pose f (m_robot_model this) (m_jmg this)
                                      initial_guess,
                             weight = 1\<rparr>) ik_poses) \<and>
   length (filter (\<lambda>goal. is_ik_cost_fn (eval goal))
      (create_goals this ik_poses cost_function initial_guess active_initial_guess)) =
     (case cost_function of None \<Rightarrow> 0 | Some f \<Rightarrow> length ik_poses)"
  by (simp add: create_goals_append filter_map_True split: option.split)

theorem ik_cost_goal_per_pose_witness:
  "filter (\<lambda>goal. is_ik_cost_fn (eval goal))
      (create_goals example_plugin [example_pose 0, example_pose 1] (Some example_cost_function)
         [0, 0, 0] [0, 0]) =
     [\<lparr>eval = make_ik_cost_fn (example_pose 0) example_cost_function (Some example_model)
                (Some example_arm) [0, 0, 0], weight = 1\<rparr>,
      \<lparr>eval = make_ik_cost_fn (example_pose 1) example_cost_function (Some example_model)
                (Some example_arm) [0, 0, 0], weight = 1\<rparr>] \<and>
   filter (\<lambda>goal. is_ik_cost_fn (eval goal))
      (create_goals example_plugin [example_pose 0, example_pose 1] None [0, 0, 0] [0, 0]) = []"
  using ik_cost_goal_per_pose [of example_plugin "[example_pose 0, example_pose 1]"
          "Some example_cost_function" "[0, 0, 0]" "[0, 0]"]
        ik_cost_goal_per_pose [of example_plugin "[example_pose 0, example_pose 1]"
          None "[0, 0, 0]" "[0, 0]"]
  by (simp add: example_plugin_members)

text \<open>
  C8. When the full overload of \<^verbatim>\<open>searchPositionIK\<close> returns failure, the solution vector is
  the one the caller passed: nothing is written into it.
\<close>

theorem search_failure_keeps_solution:
  assumes "searchPositionIK lib this ik_poses ik_seed_state timeout consistency_limits solution
             solution_callback cost_function error_code options context_state
           = Some (found, solution', error_code')"
      and "\<not> found"
  shows "solution' = solution"
  using searchPositionIK_returns [OF assms(1)] by simp

theorem search_failure_keeps_solution_witness:
  "searchPositionIK example_lib example_plugin [example_pose 3] [0, 0, 0] 1 [] [4, 5] None None
       \<lparr>val = 0\<rparr> example_options None = Some (False, [4, 5], \<lparr>val = 0\<rparr>) \<and>
   \<not> False \<and> [4, 5] = [4, 5 :: real]"
proof -
  have run: "searchPositionIK example_lib example_plugin [example_pose 3] [0, 0, 0] 1 [] [4, 5]
       None None \<lparr>val = 0\<rparr> example_options None = Some (False, [4, 5], \<lparr>val = 0\<rparr>)"
    using example_locals [of "[example_pose 3]" "[0, 0, 0]" 1 "[]" "[4, 5]" None None
            "\<lparr>val = 0\<rparr>" example_options False]
    by (auto simp add: searchPositionIK_def split: option.splits)
  from search_failure_keeps_solution [OF run] run show ?thesis by simp
qed

text \<open>
  C9. The multi-pose overload without cost function is the full overload with a null cost
  function. Each single-pose overload is the multi-pose overload on the singleton list of
  its pose with a null context state, the consistency limits being the empty vector and the
  solution callback null where the overload has no such parameter.
\<close>

theorem searchPositionIK_overloads:
  "searchPositionIK_poses lib this ik_poses ik_seed_state timeout consistency_limits solution
       solution_callback error_code options context_state =
     searchPositionIK lib this ik_poses ik_seed_state timeout consistency_limits solution
       solution_callback None error_code options context_state \<and>
   searchPositionIK_pose lib this ik_pose ik_seed_state timeout solution error_code options =
     searchPositionIK_poses lib this [ik_pose] ik_seed_state timeout [] solution None
       error_code options None \<and>
   searchPositionIK_pose_limits lib this ik_pose ik_seed_state timeout consistency_limits
       solution error_code options =
     searchPositionIK_poses lib this [ik_pose] ik_seed_state timeout consistency_limits solution
       None error_code options None \<and>
   searchPositionIK_pose_callback lib this ik_pose ik_seed_state timeout solution
       solution_callback error_code options =
     searchPositionIK_poses lib this [ik_pose] ik_seed_state timeout [] solution
       solution_callback error_code options None \<and>
   searchPositionIK_pose_limits_callback lib this ik_pose ik_seed_state timeout
       consistency_limits solution solution_callback error_code options =
     searchPositionIK_poses lib this [ik_pose] ik_seed_state timeout consistency_limits solution
       solution_callback error_code options None"
  by (simp add: searchPositionIK_poses_def searchPositionIK_pose_def
        searchPositionIK_pose_limits_def searchPositionIK_pose_callback_def
        searchPositionIK_pose_limits_callback_def)

text \<open>
  C10. For every input, \<^verbatim>\<open>getPositionFK\<close> and \<^verbatim>\<open>getPositionIK\<close> return false, and they leave
  the output parameters (poses, solution, error code) as the caller passed them: no pose and
  no solution is produced through these two methods.
\<close>

theorem getPosition_unsupported:
  "getPositionFK this link_names joint_angles poses = (False, poses) \<and>
   getPositionIK this ik_pose ik_seed_state solution error_code options =
     (False, solution, error_code)"
  by (simp add: getPositionFK_def getPositionIK_def)

end
